theory Spec2Isabelle
  imports Main "HOL-Library.Sublist"
begin

section \<open>Python values used by the SDK\<close>

text \<open>
  Exceptions are values: every function that can raise returns \<open>error + 'a\<close>, with
  \<open>Inl\<close> carrying the exception. \<open>OtherError\<close> stands for any exception raised
  by a collaborator outside this repository (the agent runtime, the inference client,
  the operating system) that the SDK does not name. \<open>MarkupError\<close> is the one
  that \<open>console.print\<close> of the rich library raises on text it cannot parse as
  console markup.
\<close>

datatype error =
    ValueError string
  | KeyError string
  | IndexError
  | AttributeError string
  | FileNotFoundError
  | ImportError string
  | MarkupError
  | OtherError string

text \<open>The characters the code tests for: the newline, the backquote and the quote.\<close>

definition NL :: char where
  "NL = CHR 0x0A"

definition BQ :: char where
  "BQ = CHR 0x60"

definition SQ :: char where
  "SQ = CHR 0x27"

text \<open>\<open>sep.join(xs)\<close>.\<close>

fun join :: "string \<Rightarrow> string list \<Rightarrow> string" where
  "join sep [] = []"
| "join sep [x] = x"
| "join sep (x # y # ys) = x @ sep @ join sep (y # ys)"

text \<open>
  \<open>repr\<close> of a string that has no quote, backslash or unprintable character (all the
  provider keys are such), and \<open>repr\<close> of a list of them.
\<close>

definition repr_str :: "string \<Rightarrow> string" where
  "repr_str s = [SQ] @ s @ [SQ]"

definition repr_list :: "string list \<Rightarrow> string" where
  "repr_list xs = ''['' @ join '', '' (map repr_str xs) @ '']''"

text \<open>\<open>a or b\<close> on an optional string: \<open>None\<close> and the empty string are falsy.\<close>

fun falsy :: "string option \<Rightarrow> bool" where
  "falsy None = True"
| "falsy (Some s) = (s = [])"

fun py_or :: "string option \<Rightarrow> string \<Rightarrow> string" where
  "py_or None d = d"
| "py_or (Some s) d = (if s = [] then d else s)"

section \<open>config.py\<close>

text \<open>
  The process environment after \<open>load_dotenv()\<close>, as an association list, and
  \<open>os.getenv(key, default)\<close>.
\<close>

type_synonym environ = "(string \<times> string) list"

definition getenv :: "environ \<Rightarrow> string \<Rightarrow> string \<Rightarrow> string" where
  "getenv env k d = (case map_of env k of None \<Rightarrow> d | Some v \<Rightarrow> v)"

text \<open>A provider profile is a dictionary with the keys model, api_key and base_url.\<close>

type_synonym profile = "(string \<times> string) list"

definition LLM_CONFIG :: "environ \<Rightarrow> (string \<times> profile) list" where
  "LLM_CONFIG env =
     [(''deepseek_local'',
         [(''model'', ''ollama/deepseek-coder-v2:16b''),
          (''api_key'', ''ollama''),
          (''base_url'', ''http://localhost:11434'')]),
      (''deepseek_api'',
         [(''model'', ''deepseek-chat''),
          (''api_key'', getenv env ''DEEPSEEK_API_KEY'' ''''),
          (''base_url'', ''https://api.deepseek.com/v1'')]),
      (''openai'',
         [(''model'', ''gpt-4o''),
          (''api_key'', getenv env ''OPENAI_API_KEY'' ''''),
          (''base_url'', ''https://api.openai.com/v1'')]),
      (''anthropic'',
         [(''model'', ''claude-sonnet-4-20250514''),
          (''api_key'', getenv env ''ANTHROPIC_API_KEY'' ''''),
          (''base_url'', ''https://api.anthropic.com'')])]"

definition keys :: "('k \<times> 'v) list \<Rightarrow> 'k list" where
  "keys d = map fst d"

definition DEFAULT_PROVIDER :: "environ \<Rightarrow> string" where
  "DEFAULT_PROVIDER env = getenv env ''LLM_PROVIDER'' ''deepseek_local''"

definition WORKSPACE_DIR :: "environ \<Rightarrow> string" where
  "WORKSPACE_DIR env = getenv env ''WORKSPACE_DIR'' ''./workspace''"

definition unknown_provider_msg :: "environ \<Rightarrow> string \<Rightarrow> string" where
  "unknown_provider_msg env provider =
     ''Unknown provider: '' @ provider @ ''. Available: '' @ repr_list (keys (LLM_CONFIG env))"

definition get_llm_config :: "environ \<Rightarrow> string option \<Rightarrow> error + profile" where
  "get_llm_config env provider0 =
     (let provider = py_or provider0 (DEFAULT_PROVIDER env) in
      if provider \<notin> set (keys (LLM_CONFIG env))
      then Inl (ValueError (unknown_provider_msg env provider))
      else (case map_of (LLM_CONFIG env) provider of
              None \<Rightarrow> Inl (KeyError provider)
            | Some p \<Rightarrow> Inr p))"

section \<open>String operations of the code extractor\<close>

text \<open>
  A Python string is modelled as a list of characters. The extractor only compares
  characters with the backquote and the newline and uses the indices it has computed
  itself, so its result does not depend on how many list elements a character outside
  ASCII takes.

  \<open>s.find(sub)\<close> and \<open>s.rfind(sub)\<close>: the lowest and the highest index at which
  \<open>sub\<close> starts in \<open>s\<close>, and \<open>-1\<close> when there is none.
\<close>

fun find_opt :: "string \<Rightarrow> string \<Rightarrow> nat option" where
  "find_opt [] sub = (if sub = [] then Some 0 else None)"
| "find_opt (c # cs) sub =
     (if prefix sub (c # cs) then Some 0 else map_option Suc (find_opt cs sub))"

fun rfind_opt :: "string \<Rightarrow> string \<Rightarrow> nat option" where
  "rfind_opt [] sub = (if sub = [] then Some 0 else None)"
| "rfind_opt (c # cs) sub =
     (case rfind_opt cs sub of
        Some i \<Rightarrow> Some (Suc i)
      | None \<Rightarrow> if prefix sub (c # cs) then Some 0 else None)"

definition find_str :: "string \<Rightarrow> string \<Rightarrow> int" where
  "find_str s sub = (case find_opt s sub of None \<Rightarrow> - 1 | Some i \<Rightarrow> int i)"

definition rfind_str :: "string \<Rightarrow> string \<Rightarrow> int" where
  "rfind_str s sub = (case rfind_opt s sub of None \<Rightarrow> - 1 | Some i \<Rightarrow> int i)"

text \<open>\<open>sub in s\<close>.\<close>

definition contains_str :: "string \<Rightarrow> string \<Rightarrow> bool" where
  "contains_str sub s = (find_opt s sub \<noteq> None)"

text \<open>\<open>s.startswith(p)\<close>.\<close>

definition startswith :: "string \<Rightarrow> string \<Rightarrow> bool" where
  "startswith s p = (take (length p) s = p)"

text \<open>
  \<open>s[lo:hi]\<close>: a negative bound counts from the end, and both bounds are clamped to
  the string.
\<close>

definition slice_bound :: "nat \<Rightarrow> int \<Rightarrow> nat" where
  "slice_bound n i = (if i < 0 then nat (max (i + int n) 0) else min (nat i) n)"

definition slice :: "string \<Rightarrow> int \<Rightarrow> int \<Rightarrow> string" where
  "slice s lo hi =
     (let a = slice_bound (length s) lo; b = slice_bound (length s) hi
      in take (b - a) (drop a s))"

text \<open>\<open>s.split(sep)\<close> for a separator of one character: never an empty list.\<close>

fun split_str :: "string \<Rightarrow> char \<Rightarrow> string list" where
  "split_str [] sep = [[]]"
| "split_str (c # cs) sep =
     (if c = sep then [] # split_str cs sep
      else (case split_str cs sep of
              [] \<Rightarrow> [[c]]
            | l # ls \<Rightarrow> (c # l) # ls))"

section \<open>openhands_client.py: extracting code from the final state\<close>

text \<open>
  An event of the agent's history, reduced to what the extractor reads of it: whether it
  has a \<open>content\<close> attribute, and then \<open>str(event.content)\<close>.
\<close>

datatype event = NoContent | Content string

datatype State = State (history: "event list")

definition fence :: string where
  "fence = [BQ, BQ, BQ]"

text \<open>
  The body of the loop for an event whose content has two distinct delimiters, from
  \<open>lines = code.split('\n')\<close> to the \<open>return\<close>. \<open>lines[0]\<close> and
  \<open>lines[-1]\<close> raise IndexError on an empty list: the former never does, as
  \<open>split\<close> returns at least one line; the latter does when the first line was the
  only one and has been dropped.
\<close>

definition strip_fence :: "string \<Rightarrow> error + string" where
  "strip_fence code =
     (let lines = split_str code NL in
      case lines of
        [] \<Rightarrow> Inl IndexError
      | l0 # _ \<Rightarrow>
          (let lines1 = (if startswith l0 fence then tl lines else lines) in
           case lines1 of
             [] \<Rightarrow> Inl IndexError
           | _ # _ \<Rightarrow>
               (let lines2 = (if last lines1 = fence then butlast lines1 else lines1)
                in Inr (join [NL] lines2))))"

text \<open>The loop over \<open>reversed(state.history)\<close>; the argument is the reversed list.\<close>

fun extract_loop :: "event list \<Rightarrow> error + string" where
  "extract_loop [] = Inr []"
| "extract_loop (NoContent # rest) = extract_loop rest"
| "extract_loop (Content content # rest) =
     (if contains_str fence content then
        (let start = find_str content fence;
             end = rfind_str content fence
         in if start \<noteq> end
            then strip_fence (slice content start (end + 3))
            else extract_loop rest)
      else extract_loop rest)"

definition extract_code_from_state :: "State \<Rightarrow> error + string" where
  "extract_code_from_state state = extract_loop (rev (history state))"

section \<open>openhands_client.py: the client facade\<close>

subsection \<open>The external runtime and the world it acts on\<close>

text \<open>
  Actions and observations are value objects of the OpenHands library. The client
  builds five actions and tells four observation variants apart; \<open>OtherObservation\<close>
  is every other variant the runtime may answer with.
\<close>

datatype action =
    CmdRunAction string
  | FileReadAction string
  | FileWriteAction string string
  | BrowseURLAction string
  | MessageAction string

datatype observation =
    CmdOutputObservation string
  | FileReadObservation string
  | FileWriteObservation string
  | BrowserOutputObservation string string string
  | OtherObservation string

text \<open>
  The string carried by the first three variants is the observation's \<open>content\<close>;
  the browser output carries its \<open>url\<close>, \<open>content\<close> and \<open>screenshot\<close>,
  in this order.
\<close>

text \<open>
  \<open>AppConfig(llm=LLMConfig(...), sandbox=SandboxConfig(...), workspace_base=...)\<close>.
\<close>

record app_config =
  llm_model :: string
  llm_api_key :: string
  llm_base_url :: string
  base_container_image :: string
  workspace_base :: string

text \<open>
  What is written with \<open>console.print\<close> (text or a panel with a title) and with the
  builtin \<open>print\<close>, as the argument passed, before any rendering.
\<close>

datatype printed = Rich string | Panel string string | Plain string

text \<open>The calls made to collaborators, in order.\<close>

datatype call =
    CreateRuntime app_config
  | RunAction action
  | Close
  | RunController app_config action int
  | Mkdir string
  | OpenRead string
  | OllamaChat string string

text \<open>
  The world: the console, the trace of collaborator calls, and the state \<open>'w\<close> of
  everything outside the program (the sandbox behind the runtime, the local file system,
  the inference server).
\<close>

record 'w world =
  console :: "printed list"
  calls :: "call list"
  ext :: 'w

text \<open>
  The collaborators, outside this repository: the OpenHands entry points, the methods of
  a runtime handle \<open>'h\<close>, \<open>str\<close> of an observation, the \<open>pathlib\<close>
  operations on the local file system, and the markup check of the rich console (see
  below). Each may raise.
\<close>

record ('h, 'w) openhands =
  create_runtime :: "app_config \<Rightarrow> 'w \<Rightarrow> (error + 'h) \<times> 'w"
  run_action :: "'h \<Rightarrow> action \<Rightarrow> 'w \<Rightarrow> (error + observation) \<times> 'w"
  close :: "'h \<Rightarrow> 'w \<Rightarrow> (error + unit) \<times> 'w"
  run_controller :: "app_config \<Rightarrow> action \<Rightarrow> 'h option \<Rightarrow> int \<Rightarrow> 'w \<Rightarrow> (error + State) \<times> 'w"
  obs_str :: "observation \<Rightarrow> string"
  path_resolve :: "string \<Rightarrow> 'w \<Rightarrow> string"
  path_join :: "string \<Rightarrow> string \<Rightarrow> string"
  path_parent :: "string \<Rightarrow> string"
  mkdir :: "string \<Rightarrow> 'w \<Rightarrow> (error + unit) \<times> 'w"
  rich_rejects :: "string \<Rightarrow> bool"

definition call_ext :: "call \<Rightarrow> ('w \<Rightarrow> 'a \<times> 'w) \<Rightarrow> 'w world \<Rightarrow> 'a \<times> 'w world" where
  "call_ext cl f w =
     (case f (ext w) of (r, x) \<Rightarrow> (r, w\<lparr>calls := calls w @ [cl], ext := x\<rparr>))"

subsection \<open>Printing on the rich console\<close>

text \<open>
  \<open>console.print\<close> reads its text as console markup: the f-strings of this repository
  put commands, paths, URLs and provider names into that text as they are, and a text
  with a closing tag that matches no open tag, such as \<open>[/x]\<close>, makes the call raise
  MarkupError instead of printing. Which texts are refused is decided by the rich
  library; the model takes it as the parameter \<open>rejects\<close>. The library looks for
  tags, each an opening bracket with the backslashes right before it, so what precedes
  the first backslash or bracket of a text takes no part in the check: \<open>rejects\<close> is
  asked about the rest, the \<open>markup_part\<close>. The text of a panel and its title are
  read as markup as well; what the builtin \<open>print\<close> writes is not.
\<close>

definition markup_part :: "string \<Rightarrow> string" where
  "markup_part s = dropWhile (\<lambda>c. c \<noteq> CHR ''['' \<and> c \<noteq> CHR 0x5C) s"

fun markup_texts :: "printed \<Rightarrow> string list" where
  "markup_texts (Rich s) = [s]"
| "markup_texts (Panel s title) = [s, title]"
| "markup_texts (Plain s) = []"

definition rich_raises :: "(string \<Rightarrow> bool) \<Rightarrow> printed \<Rightarrow> bool" where
  "rich_raises rejects m = list_ex (\<lambda>t. rejects (markup_part t)) (markup_texts m)"

definition rich_print :: "(string \<Rightarrow> bool) \<Rightarrow> printed \<Rightarrow> 'w world \<Rightarrow> (error + unit) \<times> 'w world" where
  "rich_print rejects m w =
     (if rich_raises rejects m then (Inl MarkupError, w)
      else (Inr (), w\<lparr>console := console w @ [m]\<rparr>))"

subsection \<open>OpenHandsClient\<close>

text \<open>
  The attributes of a client. The methods keep their names, without the leading
  underscore where they have one; \<open>__init__\<close> is \<open>init\<close> and \<open>_log\<close> is
  \<open>client_log\<close>. A method that assigns an attribute returns the new client; the
  others leave the client as it is and return only their result and the new world.
\<close>

record 'h client =
  provider :: string
  workspace_dir :: string
  verbose :: bool
  config :: app_config
  runtime :: "'h option"

text \<open>The log prefixes, as UTF-8.\<close>

definition CHECK_MARK :: string where
  "CHECK_MARK = [CHR 0xE2, CHR 0x9C, CHR 0x85]"

definition FOLDER :: string where
  "FOLDER = [CHR 0xF0, CHR 0x9F, CHR 0x93, CHR 0x81]"

definition ROCKET :: string where
  "ROCKET = [CHR 0xF0, CHR 0x9F, CHR 0x9A, CHR 0x80]"

definition STOP_SIGN :: string where
  "STOP_SIGN = [CHR 0xF0, CHR 0x9F, CHR 0x9B, CHR 0x91]"

definition LAPTOP :: string where
  "LAPTOP = [CHR 0xF0, CHR 0x9F, CHR 0x92, CHR 0xBB]"

definition OUTBOX :: string where
  "OUTBOX = [CHR 0xF0, CHR 0x9F, CHR 0x93, CHR 0xA4]"


definition MEMO :: string where
  "MEMO = [CHR 0xF0, CHR 0x9F, CHR 0x93, CHR 0x9D]"

definition GLOBE :: string where
  "GLOBE = [CHR 0xF0, CHR 0x9F, CHR 0x8C, CHR 0x90]"

definition ROBOT :: string where
  "ROBOT = [CHR 0xF0, CHR 0x9F, CHR 0xA4, CHR 0x96]"

definition client_log :: "('h, 'w) openhands \<Rightarrow> 'h client \<Rightarrow> printed \<Rightarrow> 'w world \<Rightarrow>
    (error + unit) \<times> 'w world" where
  "client_log api self message w =
     (if verbose self then rich_print (rich_rejects api) message w else (Inr (), w))"

text \<open>\<open>d[k]\<close> on a dictionary.\<close>

definition getitem :: "(string \<times> 'v) list \<Rightarrow> string \<Rightarrow> error + 'v" where
  "getitem d k = (case map_of d k of None \<Rightarrow> Inl (KeyError k) | Some v \<Rightarrow> Inr v)"

text \<open>Accessing an attribute of \<open>self.runtime\<close> while it is \<open>None\<close>.\<close>

definition none_has_no :: "string \<Rightarrow> error" where
  "none_has_no attr =
     AttributeError ([SQ] @ ''NoneType'' @ [SQ] @ '' object has no attribute '' @ [SQ] @ attr @ [SQ])"

text \<open>
  \<open>__init__\<close>: the first argument is \<open>OPENHANDS_AVAILABLE\<close>, the second the process
  environment. When it raises, no client comes into being.
\<close>

definition init :: "('h, 'w) openhands \<Rightarrow> bool \<Rightarrow> environ \<Rightarrow> string \<Rightarrow> string option \<Rightarrow> bool \<Rightarrow>
    'w world \<Rightarrow> (error + 'h client) \<times> 'w world" where
  "init api available env provider_arg workspace_arg verbose_arg w =
     (if \<not> available
      then (Inl (ImportError ''OpenHands SDK not installed. Run: pip install openhands-ai''), w)
      else
        (let dir = path_resolve api (py_or workspace_arg (WORKSPACE_DIR env)) (ext w) in
         case call_ext (Mkdir dir) (mkdir api dir) w of
           (Inl e, w1) \<Rightarrow> (Inl e, w1)
         | (Inr _, w1) \<Rightarrow>
             (case get_llm_config env (Some provider_arg) of
                Inl e \<Rightarrow> (Inl e, w1)
              | Inr llm_config \<Rightarrow>
                  (case getitem llm_config ''model'' of
                     Inl e \<Rightarrow> (Inl e, w1)
                   | Inr m \<Rightarrow>
                  (case getitem llm_config ''api_key'' of
                     Inl e \<Rightarrow> (Inl e, w1)
                   | Inr k \<Rightarrow>
                  (case getitem llm_config ''base_url'' of
                     Inl e \<Rightarrow> (Inl e, w1)
                   | Inr u \<Rightarrow>
                       (let self = \<lparr>provider = provider_arg, workspace_dir = dir,
                                    verbose = verbose_arg,
                                    config = \<lparr>llm_model = m, llm_api_key = k, llm_base_url = u,
                                       base_container_image =
                                         ''docker.all-hands.dev/all-hands-ai/runtime:main'',
                                       workspace_base = dir\<rparr>,
                                    runtime = None\<rparr>
                        in case client_log api self
                                  (Rich (CHECK_MARK @ '' OpenHands client initialized with '' @ provider_arg)) w1 of
                             (Inl e, w2) \<Rightarrow> (Inl e, w2)
                           | (Inr _, w2) \<Rightarrow>
                               (case client_log api self (Rich (FOLDER @ '' Workspace: '' @ dir)) w2 of
                                  (Inl e, w3) \<Rightarrow> (Inl e, w3)
                                | (Inr _, w3) \<Rightarrow> (Inr self, w3)))))))))"

text \<open>
  \<open>start\<close> assigns \<open>self.runtime\<close> and returns \<open>self\<close>: the client in the result is
  the client after the call, also when the call raises (the last log line comes after
  the assignment).
\<close>

definition start :: "('h, 'w) openhands \<Rightarrow> 'h client \<Rightarrow> 'w world \<Rightarrow>
    (error + unit) \<times> 'h client \<times> 'w world" where
  "start api self w =
     (case client_log api self (Rich (ROCKET @ '' Starting OpenHands runtime...'')) w of
        (Inl e, w1) \<Rightarrow> (Inl e, self, w1)
      | (Inr _, w1) \<Rightarrow>
          (case call_ext (CreateRuntime (config self)) (create_runtime api (config self)) w1 of
             (Inl e, w2) \<Rightarrow> (Inl e, self, w2)
           | (Inr h, w2) \<Rightarrow>
               (let self1 = self\<lparr>runtime := Some h\<rparr>
                in case client_log api self1 (Rich (CHECK_MARK @ '' Runtime started'')) w2 of
                     (Inl e, w3) \<Rightarrow> (Inl e, self1, w3)
                   | (Inr _, w3) \<Rightarrow> (Inr (), self1, w3))))"

definition stop :: "('h, 'w) openhands \<Rightarrow> 'h client \<Rightarrow> 'w world \<Rightarrow> (error + unit) \<times> 'w world" where
  "stop api self w =
     (case runtime self of
        None \<Rightarrow> (Inr (), w)
      | Some h \<Rightarrow>
          (case call_ext Close (close api h) w of
             (Inl e, w1) \<Rightarrow> (Inl e, w1)
           | (Inr _, w1) \<Rightarrow> client_log api self (Rich (STOP_SIGN @ '' Runtime stopped'')) w1))"

definition run_command :: "('h, 'w) openhands \<Rightarrow> 'h client \<Rightarrow> string \<Rightarrow> 'w world \<Rightarrow>
    (error + string) \<times> 'w world" where
  "run_command api self command w =
     (case client_log api self (Rich (LAPTOP @ '' Running: '' @ command)) w of
        (Inl e, w1) \<Rightarrow> (Inl e, w1)
      | (Inr _, w1) \<Rightarrow>
          (let action = CmdRunAction command
           in case runtime self of
                None \<Rightarrow> (Inl (none_has_no ''run_action''), w1)
              | Some h \<Rightarrow>
                  (case call_ext (RunAction action) (run_action api h action) w1 of
                     (Inl e, w2) \<Rightarrow> (Inl e, w2)
                   | (Inr (CmdOutputObservation output), w2) \<Rightarrow>
                       (case client_log api self (Rich (OUTBOX @ '' Output:'' @ [NL] @ output)) w2 of
                          (Inl e, w3) \<Rightarrow> (Inl e, w3)
                        | (Inr _, w3) \<Rightarrow> (Inr output, w3))
                   | (Inr observation, w2) \<Rightarrow> (Inr (obs_str api observation), w2))))"


definition is_FileWriteObservation :: "observation \<Rightarrow> bool" where
  "is_FileWriteObservation observation =
     (case observation of FileWriteObservation _ \<Rightarrow> True | _ \<Rightarrow> False)"

definition write_file :: "('h, 'w) openhands \<Rightarrow> 'h client \<Rightarrow> string \<Rightarrow> string \<Rightarrow> 'w world \<Rightarrow>
    (error + bool) \<times> 'w world" where
  "write_file api self filepath content w =
     (let full_path = path_join api (workspace_dir self) filepath;
          parent = path_parent api full_path
      in case call_ext (Mkdir parent) (mkdir api parent) w of
           (Inl e, w1) \<Rightarrow> (Inl e, w1)
         | (Inr _, w1) \<Rightarrow>
             (case client_log api self (Rich (MEMO @ '' Writing: '' @ full_path)) w1 of
                (Inl e, w2) \<Rightarrow> (Inl e, w2)
              | (Inr _, w2) \<Rightarrow>
                  (let action = FileWriteAction full_path content
                   in case runtime self of
                        None \<Rightarrow> (Inl (none_has_no ''run_action''), w2)
                      | Some h \<Rightarrow>
                          (case call_ext (RunAction action) (run_action api h action) w2 of
                             (Inl e, w3) \<Rightarrow> (Inl e, w3)
                           | (Inr observation, w3) \<Rightarrow>
                               (let success = is_FileWriteObservation observation
                                in if success
                                   then (case client_log api self
                                                (Rich (CHECK_MARK @ '' File written successfully'')) w3 of
                                           (Inl e, w4) \<Rightarrow> (Inl e, w4)
                                         | (Inr _, w4) \<Rightarrow> (Inr success, w4))
                                   else (Inr success, w3))))))"

text \<open>The dictionary returned by \<open>browse_url\<close>, in insertion order.\<close>

definition browse_url :: "('h, 'w) openhands \<Rightarrow> 'h client \<Rightarrow> string \<Rightarrow> 'w world \<Rightarrow>
    (error + (string \<times> string) list) \<times> 'w world" where
  "browse_url api self url w =
     (case client_log api self (Rich (GLOBE @ '' Browsing: '' @ url)) w of
        (Inl e, w1) \<Rightarrow> (Inl e, w1)
      | (Inr _, w1) \<Rightarrow>
          (let action = BrowseURLAction url
           in case runtime self of
                None \<Rightarrow> (Inl (none_has_no ''run_action''), w1)
              | Some h \<Rightarrow>
                  (case call_ext (RunAction action) (run_action api h action) w1 of
                     (Inl e, w2) \<Rightarrow> (Inl e, w2)
                   | (Inr (BrowserOutputObservation u c s), w2) \<Rightarrow>
                       (Inr [(''url'', u), (''content'', c), (''screenshot'', s)], w2)
                   | (Inr observation, w2) \<Rightarrow>
                       (Inr [(''content'', obs_str api observation)], w2))))"

definition ask :: "('h, 'w) openhands \<Rightarrow> 'h client \<Rightarrow> string \<Rightarrow> int \<Rightarrow> 'w world \<Rightarrow>
    (error + State) \<times> 'w world" where
  "ask api self task max_iterations w =
     (case client_log api self (Panel (ROBOT @ '' Task: '' @ task) ''OpenHands Agent'') w of
        (Inl e, w1) \<Rightarrow> (Inl e, w1)
      | (Inr _, w1) \<Rightarrow>
          (let initial = MessageAction task
           in case call_ext (RunController (config self) initial max_iterations)
                     (run_controller api (config self) initial (runtime self) max_iterations) w1 of
                (Inl e, w2) \<Rightarrow> (Inl e, w2)
              | (Inr state, w2) \<Rightarrow>
                  (case client_log api self (Rich (CHECK_MARK @ '' Task completed'')) w2 of
                     (Inl e, w3) \<Rightarrow> (Inl e, w3)
                   | (Inr _, w3) \<Rightarrow> (Inr state, w3))))"

definition code_prompt :: "string \<Rightarrow> string \<Rightarrow> string" where
  "code_prompt language task =
     ''Write '' @ language @ '' code to: '' @ task @ [NL] @ [NL] @
     ''Requirements:'' @ [NL] @
     ''- Write clean, well-documented code'' @ [NL] @
     ''- Include error handling'' @ [NL] @
     ''- Make it production-ready'' @ [NL] @
     ''- Only output the code, no explanations'' @ [NL]"

definition code_task :: "('h, 'w) openhands \<Rightarrow> 'h client \<Rightarrow> string \<Rightarrow> string \<Rightarrow> string option \<Rightarrow>
    'w world \<Rightarrow> (error + string) \<times> 'w world" where
  "code_task api self task language filename w =
     (case ask api self (code_prompt language task) 5 w of
        (Inl e, w1) \<Rightarrow> (Inl e, w1)
      | (Inr state, w1) \<Rightarrow>
          (case extract_code_from_state state of
             Inl e \<Rightarrow> (Inl e, w1)
           | Inr code \<Rightarrow>
               (if falsy filename then (Inr code, w1)
                else (case write_file api self (the filename) code w1 of
                        (Inl e, w2) \<Rightarrow> (Inl e, w2)
                      | (Inr _, w2) \<Rightarrow> (Inr code, w2)))))"

subsection \<open>OpenHandsSync\<close>

text \<open>
  The wrapper holds a client and an event loop of its own; \<open>_run\<close> drives one call to
  completion on it and hands back its result or its exception, which the sequential
  model does by construction.
\<close>

datatype 'h OpenHandsSync = OpenHandsSync (sync_client: "'h client")

definition sync_init :: "('h, 'w) openhands \<Rightarrow> bool \<Rightarrow> environ \<Rightarrow> string \<Rightarrow> string option \<Rightarrow> bool \<Rightarrow>
    'w world \<Rightarrow> (error + 'h OpenHandsSync) \<times> 'w world" where
  "sync_init api available env provider_arg workspace_arg verbose_arg w =
     (case init api available env provider_arg workspace_arg verbose_arg w of
        (Inl e, w1) \<Rightarrow> (Inl e, w1)
      | (Inr c, w1) \<Rightarrow> (Inr (OpenHandsSync c), w1))"

definition sync_start :: "('h, 'w) openhands \<Rightarrow> 'h OpenHandsSync \<Rightarrow> 'w world \<Rightarrow>
    (error + unit) \<times> 'h OpenHandsSync \<times> 'w world" where
  "sync_start api self w =
     (case start api (sync_client self) w of
        (r, c, w1) \<Rightarrow> (r, OpenHandsSync c, w1))"

definition sync_stop :: "('h, 'w) openhands \<Rightarrow> 'h OpenHandsSync \<Rightarrow> 'w world \<Rightarrow>
    (error + unit) \<times> 'w world" where
  "sync_stop api self w = stop api (sync_client self) w"

definition sync_run_command :: "('h, 'w) openhands \<Rightarrow> 'h OpenHandsSync \<Rightarrow> string \<Rightarrow> 'w world \<Rightarrow>
    (error + string) \<times> 'w world" where
  "sync_run_command api self command w = run_command api (sync_client self) command w"

section \<open>deepseek_cli.py: the file-based operations\<close>

text \<open>
  The collaborators of the command-line tool: \<open>ollama.chat(..., stream=True)\<close>, which
  yields the contents of its chunks and may end by raising, and reading a whole file
  with \<open>open(filepath, 'r')\<close>.
\<close>

record 'w cli_api =
  ollama_chat_stream :: "string \<Rightarrow> string \<Rightarrow> 'w \<Rightarrow> (string list \<times> error option) \<times> 'w"
  open_read :: "string \<Rightarrow> 'w \<Rightarrow> (error + string) \<times> 'w"
  cli_rich_rejects :: "string \<Rightarrow> bool"

definition DEFAULT_MODEL :: string where
  "DEFAULT_MODEL = ''deepseek-coder-v2:16b''"

text \<open>
  \<open>console.print\<close> of the tool's rich console, which may raise MarkupError, and the
  builtin \<open>print(content, end="")\<close>, which writes its text as it is.
\<close>

definition console_print :: "'w cli_api \<Rightarrow> printed \<Rightarrow> 'w world \<Rightarrow> (error + unit) \<times> 'w world" where
  "console_print api m w = rich_print (cli_rich_rejects api) m w"

definition builtin_print :: "string \<Rightarrow> 'w world \<Rightarrow> 'w world" where
  "builtin_print s w = w\<lparr>console := console w @ [Plain s]\<rparr>"

text \<open>The loop of \<open>stream_response\<close> over the chunks received.\<close>

fun stream_loop :: "string list \<Rightarrow> string \<Rightarrow> 'w world \<Rightarrow> string \<times> 'w world" where
  "stream_loop [] full_response w = (full_response, w)"
| "stream_loop (content # chunks) full_response w =
     stream_loop chunks (full_response @ content) (builtin_print content w)"

definition stream_response :: "'w cli_api \<Rightarrow> string \<Rightarrow> string \<Rightarrow> 'w world \<Rightarrow>
    (error + string) \<times> 'w world" where
  "stream_response api prompt model w =
     (case console_print api
             (Rich ([NL] @ ''[bold blue]'' @ ROBOT @ '' DeepSeek ('' @ model @
                    ''):[/bold blue]'' @ [NL])) w of
        (Inl e, w1) \<Rightarrow> (Inl e, w1)
      | (Inr _, w1) \<Rightarrow>
          (case call_ext (OllamaChat model prompt) (ollama_chat_stream api model prompt) w1 of
             ((chunks, raised), w2) \<Rightarrow>
               (case stream_loop chunks [] w2 of
                  (full_response, w3) \<Rightarrow>
                    (case raised of
                       Some e \<Rightarrow> (Inl e, w3)
                     | None \<Rightarrow> (Inr full_response, builtin_print ([NL] @ [NL]) w3)))))"

text \<open>
  Each operation reads the file under \<open>except FileNotFoundError\<close>: that exception
  is caught and reported with \<open>console.print\<close>, and the operation ends with the empty
  string; any other exception of \<open>open\<close> or \<open>read\<close> propagates, and so does one
  raised by the \<open>console.print\<close> of the handler.
\<close>

definition review_prompt :: "string \<Rightarrow> string" where
  "review_prompt code =
     ''Review this code and provide detailed feedback:'' @ [NL] @ [NL] @
     fence @ [NL] @ code @ [NL] @ fence @ [NL] @ [NL] @
     ''Check for:'' @ [NL] @
     ''1. Bugs and errors'' @ [NL] @
     ''2. Security vulnerabilities'' @ [NL] @
     ''3. Performance issues'' @ [NL] @
     ''4. Code style and best practices'' @ [NL] @
     ''5. Suggestions for improvement'' @ [NL] @ [NL] @
     ''Be specific and provide examples.''"

definition review_file :: "'w cli_api \<Rightarrow> string \<Rightarrow> string \<Rightarrow> 'w world \<Rightarrow>
    (error + string) \<times> 'w world" where
  "review_file api filepath model w =
     (case call_ext (OpenRead filepath) (open_read api filepath) w of
        (Inl FileNotFoundError, w1) \<Rightarrow>
          (case console_print api (Rich (''[red]File not found: '' @ filepath @ ''[/red]'')) w1 of
             (Inl e, w2) \<Rightarrow> (Inl e, w2)
           | (Inr _, w2) \<Rightarrow> (Inr [], w2))
      | (Inl e, w1) \<Rightarrow> (Inl e, w1)
      | (Inr code, w1) \<Rightarrow> stream_response api (review_prompt code) model w1)"

definition explain_prompt :: "string \<Rightarrow> string" where
  "explain_prompt code =
     ''Explain this code in detail:'' @ [NL] @ [NL] @
     fence @ [NL] @ code @ [NL] @ fence @ [NL] @ [NL] @
     ''Provide:'' @ [NL] @
     ''1. Overview of what the code does'' @ [NL] @
     ''2. Step-by-step explanation'' @ [NL] @
     ''3. Key concepts used'' @ [NL] @
     ''4. Potential improvements''"

definition explain_file :: "'w cli_api \<Rightarrow> string \<Rightarrow> string \<Rightarrow> 'w world \<Rightarrow>
    (error + string) \<times> 'w world" where
  "explain_file api filepath model w =
     (case call_ext (OpenRead filepath) (open_read api filepath) w of
        (Inl FileNotFoundError, w1) \<Rightarrow>
          (case console_print api (Rich (''[red]File not found: '' @ filepath @ ''[/red]'')) w1 of
             (Inl e, w2) \<Rightarrow> (Inl e, w2)
           | (Inr _, w2) \<Rightarrow> (Inr [], w2))
      | (Inl e, w1) \<Rightarrow> (Inl e, w1)
      | (Inr code, w1) \<Rightarrow> stream_response api (explain_prompt code) model w1)"

definition fix_prompt :: "string option \<Rightarrow> string \<Rightarrow> string" where
  "fix_prompt error code =
     (let error_info = (if falsy error then [] else [NL] @ ''Error: '' @ the error)
      in ''Fix this code:'' @ error_info @ [NL] @ [NL] @
         fence @ [NL] @ code @ [NL] @ fence @ [NL] @ [NL] @
         ''Provide the corrected code with comments explaining the fixes.'')"

definition fix_file :: "'w cli_api \<Rightarrow> string \<Rightarrow> string option \<Rightarrow> string \<Rightarrow> 'w world \<Rightarrow>
    (error + string) \<times> 'w world" where
  "fix_file api filepath error model w =
     (case call_ext (OpenRead filepath) (open_read api filepath) w of
        (Inl FileNotFoundError, w1) \<Rightarrow>
          (case console_print api (Rich (''[red]File not found: '' @ filepath @ ''[/red]'')) w1 of
             (Inl e, w2) \<Rightarrow> (Inl e, w2)
           | (Inr _, w2) \<Rightarrow> (Inr [], w2))
      | (Inl e, w1) \<Rightarrow> (Inl e, w1)
      | (Inr code, w1) \<Rightarrow> stream_response api (fix_prompt error code) model w1)"

section \<open>Notions used to state the properties\<close>

text \<open>
  The positions at which \<open>sub\<close> starts in \<open>s\<close>, in increasing order. An event has
  few fences when it has no content or its content holds the delimiter at fewer than
  two positions: too few for an opening and a closing fence.
\<close>

definition occurrences :: "string \<Rightarrow> string \<Rightarrow> nat list" where
  "occurrences sub s = filter (\<lambda>i. prefix sub (drop i s)) [0..<Suc (length s)]"

fun few_fences :: "event \<Rightarrow> bool" where
  "few_fences NoContent = True"
| "few_fences (Content c) = (length (occurrences fence c) \<le> 1)"

text \<open>Whether an observation is of the browser-output variant.\<close>

fun is_browser_output :: "observation \<Rightarrow> bool" where
  "is_browser_output (BrowserOutputObservation u c s) = True"
| "is_browser_output _ = False"


text \<open>
  A log line raises when the client is verbose and the rich console refuses its text.
\<close>

definition log_raises :: "('h, 'w) openhands \<Rightarrow> 'h client \<Rightarrow> printed \<Rightarrow> bool" where
  "log_raises api self m = (verbose self \<and> rich_raises (rich_rejects api) m)"

section \<open>A simulated runtime\<close>

text \<open>
  An instance of the collaborators on which the theorems below are exercised: the
  sandbox is a list of written files (path, content), newest first, and serves as the
  local file system of the command-line tool as well. The handle is \<open>()\<close>.
\<close>

type_synonym sandbox = "(string \<times> string) list"

definition sim_obs_str :: "observation \<Rightarrow> string" where
  "sim_obs_str obs =
     (case obs of
        CmdOutputObservation c \<Rightarrow> c
      | FileReadObservation c \<Rightarrow> c
      | FileWriteObservation c \<Rightarrow> c
      | BrowserOutputObservation u c s \<Rightarrow> c
      | OtherObservation c \<Rightarrow> ''**Observation** '' @ c)"

definition sim_run_action :: "unit \<Rightarrow> action \<Rightarrow> sandbox \<Rightarrow> (error + observation) \<times> sandbox" where
  "sim_run_action h a files =
     (case a of
        CmdRunAction c \<Rightarrow> (Inr (CmdOutputObservation []), files)
      | FileReadAction p \<Rightarrow>
          (case map_of files p of
             None \<Rightarrow> (Inr (OtherObservation (''File not found: '' @ p)), files)
           | Some c \<Rightarrow> (Inr (FileReadObservation c), files))
      | FileWriteAction p c \<Rightarrow> (Inr (FileWriteObservation []), (p, c) # files)
      | BrowseURLAction u \<Rightarrow>
          (if u = [] then (Inr (OtherObservation ''no URL given''), files)
           else (Inr (BrowserOutputObservation u ''<html></html>'' []), files))
      | MessageAction m \<Rightarrow> (Inr (OtherObservation m), files))"

definition sim_create_runtime :: "app_config \<Rightarrow> sandbox \<Rightarrow> (error + unit) \<times> sandbox" where
  "sim_create_runtime cfg files = (Inr (), files)"

definition sim_close :: "unit \<Rightarrow> sandbox \<Rightarrow> (error + unit) \<times> sandbox" where
  "sim_close h files = (Inr (), files)"

definition sim_run_controller ::
    "app_config \<Rightarrow> action \<Rightarrow> unit option \<Rightarrow> int \<Rightarrow> sandbox \<Rightarrow> (error + State) \<times> sandbox" where
  "sim_run_controller cfg a h n files = (Inr (State []), files)"

definition sim_path_resolve :: "string \<Rightarrow> sandbox \<Rightarrow> string" where
  "sim_path_resolve p files = p"

definition sim_path_join :: "string \<Rightarrow> string \<Rightarrow> string" where
  "sim_path_join a b = a @ ''/'' @ b"

definition sim_path_parent :: "string \<Rightarrow> string" where
  "sim_path_parent p = rev (tl (dropWhile (\<lambda>c. c \<noteq> CHR ''/'') (rev p)))"

definition sim_mkdir :: "string \<Rightarrow> sandbox \<Rightarrow> (error + unit) \<times> sandbox" where
  "sim_mkdir p files = (Inr (), files)"

text \<open>
  A simulated markup check: it keeps the stack of open tags and refuses a text at the
  first closing tag that matches none of them (or, for \<open>[/]\<close>, finds the stack
  empty). A tag is a bracketed text without an opening bracket inside that begins with a
  lower-case letter, \<open>#\<close>, \<open>/\<close> or \<open>@\<close>. Tag names are compared as written, and a
  backslash escapes nothing here: enough for the texts of the examples.
\<close>

definition tag_start :: "char \<Rightarrow> bool" where
  "tag_start c = (c \<in> set ''abcdefghijklmnopqrstuvwxyz#/@'')"

fun sim_scan :: "string list \<Rightarrow> string option \<Rightarrow> string \<Rightarrow> bool" where
  "sim_scan stack cur [] = False"
| "sim_scan stack None (c # cs) =
     (if c = CHR ''['' then sim_scan stack (Some []) cs else sim_scan stack None cs)"
| "sim_scan stack (Some t) (c # cs) =
     (if c = CHR ''['' then sim_scan stack (Some []) cs
      else if c \<noteq> CHR '']'' then sim_scan stack (Some (t @ [c])) cs
      else (case t of
              [] \<Rightarrow> sim_scan stack None cs
            | a # name \<Rightarrow>
                if a = CHR ''/'' then
                  (if name = [] then
                     (case stack of [] \<Rightarrow> True | _ # rest \<Rightarrow> sim_scan rest None cs)
                   else if name \<in> set stack then sim_scan (remove1 name stack) None cs
                   else True)
                else if tag_start a then sim_scan (t # stack) None cs
                else sim_scan stack None cs))"

definition sim_rejects :: "string \<Rightarrow> bool" where
  "sim_rejects s = sim_scan [] None s"

definition sim :: "(unit, sandbox) openhands" where
  "sim = \<lparr>create_runtime = sim_create_runtime, run_action = sim_run_action,
          close = sim_close, run_controller = sim_run_controller, obs_str = sim_obs_str,
          path_resolve = sim_path_resolve, path_join = sim_path_join,
          path_parent = sim_path_parent, mkdir = sim_mkdir, rich_rejects = sim_rejects\<rparr>"

definition sim_open_read :: "string \<Rightarrow> sandbox \<Rightarrow> (error + string) \<times> sandbox" where
  "sim_open_read p files =
     (case map_of files p of
        None \<Rightarrow> (Inl FileNotFoundError, files)
      | Some c \<Rightarrow> (Inr c, files))"

definition sim_ollama_chat_stream :: "string \<Rightarrow> string \<Rightarrow> sandbox \<Rightarrow> (string list \<times> error option) \<times> sandbox" where
  "sim_ollama_chat_stream m p files = ((['' ok''], None), files)"

definition sim_cli :: "sandbox cli_api" where
  "sim_cli = \<lparr>ollama_chat_stream = sim_ollama_chat_stream, open_read = sim_open_read,
              cli_rich_rejects = sim_rejects\<rparr>"

definition sim_config :: app_config where
  "sim_config = \<lparr>llm_model = ''ollama/deepseek-coder-v2:16b'', llm_api_key = ''ollama'',
                 llm_base_url = ''http://localhost:11434'',
                 base_container_image = ''docker.all-hands.dev/all-hands-ai/runtime:main'',
                 workspace_base = ''/ws''\<rparr>"

definition fresh_client :: "unit client" where
  "fresh_client = \<lparr>provider = ''deepseek_local'', workspace_dir = ''/ws'', verbose = True,
                   config = sim_config, runtime = None\<rparr>"

definition started_client :: "unit client" where
  "started_client = fresh_client\<lparr>runtime := Some ()\<rparr>"

definition empty_world :: "sandbox world" where
  "empty_world = \<lparr>console = [], calls = [], ext = []\<rparr>"

section \<open>Properties of the configuration resolver\<close>

lemma keys_LLM_CONFIG:
  "keys (LLM_CONFIG env) = [''deepseek_local'', ''deepseek_api'', ''openai'', ''anthropic'']"
  by (simp add: keys_def LLM_CONFIG_def)

lemma map_of_LLM_CONFIG_present:
  assumes "p \<in> set (keys (LLM_CONFIG env))"
  shows "\<exists>prof. map_of (LLM_CONFIG env) p = Some prof"
proof -
  from assms have "p \<in> fst ` set (LLM_CONFIG env)" by (simp add: keys_def)
  then show ?thesis
    by (metis domD dom_map_of_conv_image_fst)
qed

lemma py_or_falsy: "falsy p \<Longrightarrow> py_or p d = d"
  by (cases p) simp_all

lemma py_or_nonempty: "s \<noteq> [] \<Longrightarrow> py_or (Some s) d = s"
  by simp

lemma sublist_repr_list:
  "k \<in> set ks \<Longrightarrow> sublist (repr_str k) (repr_list ks)"
proof -
  have j: "k \<in> set xs \<Longrightarrow> sublist k (join sep xs)" for k :: string and sep xs
  proof (induction sep xs rule: join.induct)
    case (3 sep x y ys)
    then show ?case
      by (auto simp: sublist_append intro: sublist_appendI)
  qed simp_all
  assume "k \<in> set ks"
  then have "repr_str k \<in> set (map repr_str ks)" by simp
  then have "sublist (repr_str k) (join '', '' (map repr_str ks))" by (rule j)
  then show ?thesis
    unfolding repr_list_def by (meson sublist_append)
qed

text \<open>
  Claim C3. For every provider key present in the configuration mapping
  (deepseek_local, deepseek_api, openai, anthropic) and every environment,
  \<open>get_llm_config\<close> returns without raising, and the profile it returns has
  non-empty strings under the keys model and base_url.
\<close>

theorem get_llm_config_known_provider:
  assumes "p \<in> set (keys (LLM_CONFIG env))"
  shows "\<exists>prof m u. get_llm_config env (Some p) = Inr prof
           \<and> map_of prof ''model'' = Some m \<and> m \<noteq> []
           \<and> map_of prof ''base_url'' = Some u \<and> u \<noteq> []"
proof -
  from assms consider "p = ''deepseek_local''" | "p = ''deepseek_api''" | "p = ''openai''" | "p = ''anthropic''"
    by (auto simp: keys_LLM_CONFIG)
  then show ?thesis
    by cases (simp_all add: get_llm_config_def keys_LLM_CONFIG, simp_all add: LLM_CONFIG_def)
qed

theorem get_llm_config_known_provider_witness:
  "''openai'' \<in> set (keys (LLM_CONFIG [])) \<and>
   (\<exists>prof m u. get_llm_config [] (Some ''openai'') = Inr prof
           \<and> map_of prof ''model'' = Some m \<and> m \<noteq> []
           \<and> map_of prof ''base_url'' = Some u \<and> u \<noteq> [])"
proof -
  have h: "''openai'' \<in> set (keys (LLM_CONFIG []))" by (simp add: keys_LLM_CONFIG)
  from get_llm_config_known_provider [OF h] h show ?thesis by simp
qed

text \<open>
  Claim C2, as stated, fails at the empty provider string: it is not a key of the
  mapping, yet \<open>provider or DEFAULT_PROVIDER\<close> replaces it by the default provider
  before the lookup, so with \<open>LLM_PROVIDER\<close> unset the call returns the
  deepseek_local profile instead of raising.
\<close>

theorem get_llm_config_empty_provider_counterexample:
  "[] \<notin> set (keys (LLM_CONFIG [])) \<and>
   get_llm_config [] (Some []) =
     Inr [(''model'', ''ollama/deepseek-coder-v2:16b''),
          (''api_key'', ''ollama''),
          (''base_url'', ''http://localhost:11434'')]"
  by (simp add: keys_LLM_CONFIG get_llm_config_def DEFAULT_PROVIDER_def getenv_def)
     (simp add: LLM_CONFIG_def)

text \<open>
  Claim C2, amended. For every non-empty provider string that is not a key of the
  configuration mapping, \<open>get_llm_config\<close> raises ValueError; its message names the
  unknown provider and lists, in the mapping's order, the \<open>repr\<close> of every valid key.
\<close>

theorem get_llm_config_unknown_provider:
  assumes "p \<noteq> []" and "p \<notin> set (keys (LLM_CONFIG env))"
  shows "get_llm_config env (Some p) = Inl (ValueError (unknown_provider_msg env p))
         \<and> unknown_provider_msg env p =
             ''Unknown provider: '' @ p @ ''. Available: ['' @
               [SQ] @ ''deepseek_local'' @ [SQ] @ '', '' @ [SQ] @ ''deepseek_api'' @ [SQ] @ '', '' @
               [SQ] @ ''openai'' @ [SQ] @ '', '' @ [SQ] @ ''anthropic'' @ [SQ] @ '']''
         \<and> sublist p (unknown_provider_msg env p)
         \<and> (\<forall>k \<in> set (keys (LLM_CONFIG env)). sublist (repr_str k) (unknown_provider_msg env p))"
proof (intro conjI ballI)
  show "get_llm_config env (Some p) = Inl (ValueError (unknown_provider_msg env p))"
    using assms by (simp add: get_llm_config_def)
  show "unknown_provider_msg env p =
             ''Unknown provider: '' @ p @ ''. Available: ['' @
               [SQ] @ ''deepseek_local'' @ [SQ] @ '', '' @ [SQ] @ ''deepseek_api'' @ [SQ] @ '', '' @
               [SQ] @ ''openai'' @ [SQ] @ '', '' @ [SQ] @ ''anthropic'' @ [SQ] @ '']''"
    by (simp add: unknown_provider_msg_def keys_LLM_CONFIG repr_list_def repr_str_def)
  show "sublist p (unknown_provider_msg env p)"
    unfolding unknown_provider_msg_def by (meson sublist_append sublist_order.order_refl)
  fix k assume "k \<in> set (keys (LLM_CONFIG env))"
  then have "sublist (repr_str k) (repr_list (keys (LLM_CONFIG env)))"
    by (rule sublist_repr_list)
  then show "sublist (repr_str k) (unknown_provider_msg env p)"
    unfolding unknown_provider_msg_def by (meson sublist_append)
qed

theorem get_llm_config_unknown_provider_witness:
  "''gemini'' \<noteq> [] \<and> ''gemini'' \<notin> set (keys (LLM_CONFIG [])) \<and>
   get_llm_config [] (Some ''gemini'') = Inl (ValueError (unknown_provider_msg [] ''gemini'')) \<and>
   unknown_provider_msg [] ''gemini'' =
     ''Unknown provider: '' @ ''gemini'' @ ''. Available: ['' @
               [SQ] @ ''deepseek_local'' @ [SQ] @ '', '' @ [SQ] @ ''deepseek_api'' @ [SQ] @ '', '' @
               [SQ] @ ''openai'' @ [SQ] @ '', '' @ [SQ] @ ''anthropic'' @ [SQ] @ '']'' \<and>
   ''openai'' \<in> set (keys (LLM_CONFIG [])) \<and>
   sublist (repr_str ''openai'') (unknown_provider_msg [] ''gemini'')"
proof -
  have h1: "''gemini'' \<noteq> []" by simp
  have h2: "''gemini'' \<notin> set (keys (LLM_CONFIG []))" by (simp add: keys_LLM_CONFIG)
  have h3: "''openai'' \<in> set (keys (LLM_CONFIG []))" by (simp add: keys_LLM_CONFIG)
  from get_llm_config_unknown_provider [OF h1 h2] h1 h2 h3 show ?thesis by blast
qed

text \<open>
  Claim C9, as stated, fails when the default provider taken from the environment is
  not a key of the mapping: with \<open>LLM_PROVIDER=gemini\<close> the call with the empty string
  does end in the "Unknown provider" error, and with \<open>LLM_PROVIDER\<close> set to the empty
  string the error even names the empty string.
\<close>

theorem get_llm_config_falsy_provider_counterexample:
  "falsy (Some []) \<and>
   get_llm_config [(''LLM_PROVIDER'', ''gemini'')] (Some []) =
     Inl (ValueError (''Unknown provider: gemini. Available: ['' @
               [SQ] @ ''deepseek_local'' @ [SQ] @ '', '' @ [SQ] @ ''deepseek_api'' @ [SQ] @ '', '' @
               [SQ] @ ''openai'' @ [SQ] @ '', '' @ [SQ] @ ''anthropic'' @ [SQ] @ '']'')) \<and>
   get_llm_config [(''LLM_PROVIDER'', [])] (Some []) =
     Inl (ValueError (''Unknown provider: . Available: ['' @
               [SQ] @ ''deepseek_local'' @ [SQ] @ '', '' @ [SQ] @ ''deepseek_api'' @ [SQ] @ '', '' @
               [SQ] @ ''openai'' @ [SQ] @ '', '' @ [SQ] @ ''anthropic'' @ [SQ] @ '']''))"
  by (simp add: get_llm_config_def DEFAULT_PROVIDER_def getenv_def keys_LLM_CONFIG
      unknown_provider_msg_def repr_list_def repr_str_def)

text \<open>
  Claim C9, amended. A falsy provider argument (\<open>None\<close> or the empty string) is
  treated as an omitted one: the call gives what the call without argument gives, which
  is the lookup of the default provider taken from the environment; when that default
  is a key of the mapping, the call returns its profile and not an "Unknown provider"
  error.
\<close>

theorem get_llm_config_falsy_provider:
  assumes "falsy p"
  shows "get_llm_config env p = get_llm_config env None
       \<and> get_llm_config env p = get_llm_config env (Some (DEFAULT_PROVIDER env))
       \<and> (DEFAULT_PROVIDER env \<in> set (keys (LLM_CONFIG env)) \<longrightarrow>
            (\<exists>prof. get_llm_config env p = Inr prof
                  \<and> map_of (LLM_CONFIG env) (DEFAULT_PROVIDER env) = Some prof))"
proof -
  have r: "py_or p (DEFAULT_PROVIDER env) = DEFAULT_PROVIDER env"
    using assms by (rule py_or_falsy)
  have d: "py_or (Some (DEFAULT_PROVIDER env)) (DEFAULT_PROVIDER env) = DEFAULT_PROVIDER env"
    by simp
  have 1: "get_llm_config env p = get_llm_config env None"
    by (simp add: get_llm_config_def r)
  have 2: "get_llm_config env p = get_llm_config env (Some (DEFAULT_PROVIDER env))"
    unfolding get_llm_config_def r d ..
  have 3: "\<exists>prof. get_llm_config env p = Inr prof
                  \<and> map_of (LLM_CONFIG env) (DEFAULT_PROVIDER env) = Some prof"
    if "DEFAULT_PROVIDER env \<in> set (keys (LLM_CONFIG env))"
    using that map_of_LLM_CONFIG_present [OF that] by (auto simp: get_llm_config_def r)
  from 1 2 3 show ?thesis by blast
qed

theorem get_llm_config_falsy_provider_witness:
  "falsy (Some []) \<and>
   get_llm_config [] (Some []) = get_llm_config [] None \<and>
   DEFAULT_PROVIDER [] \<in> set (keys (LLM_CONFIG [])) \<and>
   (\<exists>prof. get_llm_config [] (Some []) = Inr prof
          \<and> map_of (LLM_CONFIG []) (DEFAULT_PROVIDER []) = Some prof)"
proof -
  have f: "falsy (Some [])" by simp
  have a: "DEFAULT_PROVIDER [] \<in> set (keys (LLM_CONFIG []))"
    by (simp add: keys_LLM_CONFIG DEFAULT_PROVIDER_def getenv_def)
  from get_llm_config_falsy_provider [OF f, of "[]"] f a
  show ?thesis by blast
qed

lemma get_llm_config_falsy_unknown_default:
  assumes "falsy p" and "DEFAULT_PROVIDER env \<notin> set (keys (LLM_CONFIG env))"
  shows "get_llm_config env p = Inl (ValueError (unknown_provider_msg env (DEFAULT_PROVIDER env)))"
  using assms by (simp add: get_llm_config_def py_or_falsy)

section \<open>Properties of the code extractor\<close>

subsection \<open>What \<open>find\<close>, \<open>rfind\<close>, \<open>split\<close> and \<open>join\<close> compute\<close>

lemma mem_occurrences:
  "i \<in> set (occurrences sub s) \<longleftrightarrow> i \<le> length s \<and> prefix sub (drop i s)"
  unfolding occurrences_def by (simp del: upt_Suc add: less_Suc_eq_le)

lemma distinct_occurrences: "distinct (occurrences sub s)"
  unfolding occurrences_def by (simp del: upt_Suc)

lemma sublist_iff_drop:
  "sublist sub s \<longleftrightarrow> (\<exists>i\<le>length s. prefix sub (drop i s))"
proof
  assume "sublist sub s"
  then obtain ps ss where s: "s = ps @ sub @ ss" by (auto simp: sublist_def)
  then have "prefix sub (drop (length ps) s)" by simp
  moreover have "length ps \<le> length s" using s by simp
  ultimately show "\<exists>i\<le>length s. prefix sub (drop i s)" by blast
next
  assume "\<exists>i\<le>length s. prefix sub (drop i s)"
  then obtain i where "prefix sub (drop i s)" by blast
  then obtain ss where "drop i s = sub @ ss" by (auto simp: prefix_def)
  then have "s = take i s @ sub @ ss" by (metis append_take_drop_id)
  then show "sublist sub s" by (auto simp: sublist_def)
qed

lemma find_opt_None: "find_opt s sub = None \<longleftrightarrow> \<not> sublist sub s"
proof (induction s)
  case Nil
  then show ?case by auto
next
  case (Cons c cs)
  then show ?case by (auto simp: sublist_Cons_right)
qed

lemma find_opt_Some:
  "find_opt s sub = Some i \<Longrightarrow>
     i \<le> length s \<and> prefix sub (drop i s) \<and> (\<forall>j<i. \<not> prefix sub (drop j s))"
proof (induction s arbitrary: i)
  case Nil
  then show ?case by (auto split: if_splits)
next
  case (Cons c cs)
  show ?case
  proof (cases "prefix sub (c # cs)")
    case True
    with Cons.prems show ?thesis by simp
  next
    case False
    with Cons.prems obtain k where k: "find_opt cs sub = Some k" and i: "i = Suc k"
      by auto
    from Cons.IH [OF k] have ih: "k \<le> length cs" "prefix sub (drop k cs)"
      "\<forall>j<k. \<not> prefix sub (drop j cs)" by auto
    have "\<not> prefix sub (drop j (c # cs))" if "j < i" for j
    proof (cases j)
      case 0
      with False show ?thesis by simp
    next
      case (Suc j')
      with that i ih(3) show ?thesis by simp
    qed
    with ih i show ?thesis by simp
  qed
qed

lemma rfind_opt_None: "rfind_opt s sub = None \<longleftrightarrow> \<not> sublist sub s"
proof (induction s)
  case Nil
  then show ?case by auto
next
  case (Cons c cs)
  then show ?case by (auto simp: sublist_Cons_right split: option.splits)
qed

lemma rfind_opt_Some:
  "rfind_opt s sub = Some i \<Longrightarrow>
     i \<le> length s \<and> prefix sub (drop i s) \<and>
     (\<forall>j. i < j \<and> j \<le> length s \<longrightarrow> \<not> prefix sub (drop j s))"
proof (induction s arbitrary: i)
  case Nil
  then show ?case by (auto split: if_splits)
next
  case (Cons c cs)
  show ?case
  proof (cases "rfind_opt cs sub")
    case None
    with Cons.prems have i: "i = 0" and p: "prefix sub (c # cs)"
      by (auto split: if_splits)
    from None have n: "\<not> sublist sub cs" by (simp add: rfind_opt_None)
    have "\<not> prefix sub (drop j (c # cs))" if "0 < j" "j \<le> length (c # cs)" for j
    proof -
      from that obtain j' where j: "j = Suc j'" by (cases j) auto
      with that have "j' \<le> length cs" by simp
      with n have "\<not> prefix sub (drop j' cs)" by (auto simp: sublist_iff_drop)
      with j show ?thesis by simp
    qed
    with i p show ?thesis by simp
  next
    case (Some k)
    with Cons.prems have i: "i = Suc k" by simp
    from Cons.IH [OF Some] have ih: "k \<le> length cs" "prefix sub (drop k cs)"
      "\<forall>j. k < j \<and> j \<le> length cs \<longrightarrow> \<not> prefix sub (drop j cs)" by auto
    have "\<not> prefix sub (drop j (c # cs))" if "i < j" "j \<le> length (c # cs)" for j
    proof -
      from that i obtain j' where j: "j = Suc j'" by (cases j) auto
      with that i ih(3) show ?thesis by simp
    qed
    with ih i show ?thesis by simp
  qed
qed

lemma contains_str_iff: "contains_str sub s \<longleftrightarrow> sublist sub s"
  by (simp add: contains_str_def find_opt_None)

lemma few_occurrences_find_eq_rfind:
  assumes "length (occurrences sub s) \<le> 1"
  shows "find_str s sub = rfind_str s sub"
proof (cases "sublist sub s")
  case False
  then show ?thesis
    by (simp add: find_str_def rfind_str_def find_opt_None [THEN iffD2] rfind_opt_None [THEN iffD2])
next
  case True
  then obtain a b where a: "find_opt s sub = Some a" and b: "rfind_opt s sub = Some b"
    using find_opt_None rfind_opt_None by (metis not_Some_eq)
  from find_opt_Some [OF a] have "a \<in> set (occurrences sub s)" by (simp add: mem_occurrences)
  moreover from rfind_opt_Some [OF b] have "b \<in> set (occurrences sub s)" by (simp add: mem_occurrences)
  moreover from assms have "card (set (occurrences sub s)) \<le> 1"
    by (simp add: distinct_card distinct_occurrences)
  ultimately have "a = b"
    by (metis List.finite_set card_le_Suc0_iff_eq One_nat_def)
  with a b show ?thesis by (simp add: find_str_def rfind_str_def)
qed

lemma extract_loop_skip:
  assumes "\<forall>e \<in> set es. few_fences e"
  shows "extract_loop (es @ rest) = extract_loop rest"
  using assms
proof (induction es)
  case Nil
  then show ?case by simp
next
  case (Cons e es)
  then have ih: "extract_loop (es @ rest) = extract_loop rest" by simp
  show ?case
  proof (cases e)
    case NoContent
    with ih show ?thesis by simp
  next
    case (Content c)
    with Cons.prems have "length (occurrences fence c) \<le> 1" by simp
    then have "find_str c fence = rfind_str c fence" by (rule few_occurrences_find_eq_rfind)
    with ih Content show ?thesis by simp
  qed
qed

lemma split_str_nonempty: "split_str s sep \<noteq> []"
  by (induction s) (auto split: list.splits)

lemma split_str_append:
  "split_str (a @ sep # b) sep = split_str a sep @ split_str b sep"
proof (induction a)
  case Nil
  then show ?case by simp
next
  case (Cons c cs)
  obtain l ls where "split_str cs sep = l # ls"
    using split_str_nonempty [of cs sep] by (cases "split_str cs sep") auto
  with Cons show ?case by simp
qed

lemma split_str_no_sep: "sep \<notin> set a \<Longrightarrow> split_str a sep = [a]"
  by (induction a) auto

lemma join_Cons_Cons: "join [sep] ((c # l) # ls) = c # join [sep] (l # ls)"
  by (cases ls) simp_all

lemma join_split_str: "join [sep] (split_str s sep) = s"
proof (induction s)
  case Nil
  then show ?case by simp
next
  case (Cons c cs)
  obtain l ls where sp: "split_str cs sep = l # ls"
    using split_str_nonempty [of cs sep] by (cases "split_str cs sep") auto
  show ?case
  proof (cases "c = sep")
    case True
    with Cons sp show ?thesis by simp
  next
    case False
    with Cons sp show ?thesis by (simp add: join_Cons_Cons)
  qed
qed

subsection \<open>A fenced block\<close>

lemma BQ_neq_NL [simp]: "BQ \<noteq> NL" "NL \<noteq> BQ"
  by (simp_all add: BQ_def NL_def)

lemma strip_fence_block:
  assumes q: "q = [] \<or> q = [BQ] \<or> q = [BQ, BQ]"
  shows "strip_fence (q @ fence @ ''python'' @ [NL] @ X @ [NL] @ fence) = Inr X"
proof -
  let ?l0 = "q @ fence @ ''python''"
  have nl: "NL \<notin> set ?l0" using q by (auto simp: fence_def NL_def BQ_def)
  have nf: "NL \<notin> set fence" by (simp add: fence_def)
  have "split_str (?l0 @ NL # (X @ NL # fence)) NL
          = split_str ?l0 NL @ split_str X NL @ split_str fence NL"
    by (simp only: split_str_append)
  then have lines: "split_str (q @ fence @ ''python'' @ [NL] @ X @ [NL] @ fence) NL
          = ?l0 # (split_str X NL @ [fence])"
    by (simp add: split_str_no_sep [OF nl] split_str_no_sep [OF nf])
  have sw: "startswith ?l0 fence"
    using q by (auto simp: startswith_def fence_def)
  obtain l ls where eq: "split_str X NL @ [fence] = l # ls"
    by (cases "split_str X NL @ [fence]") auto
  have la: "last (l # ls) = fence" by (metis eq last_snoc)
  have bu: "butlast (l # ls) = split_str X NL" by (metis eq butlast_snoc)
  have "strip_fence (q @ fence @ ''python'' @ [NL] @ X @ [NL] @ fence)
          = Inr (join [NL] (butlast (l # ls)))"
    unfolding strip_fence_def lines Let_def
    by (simp only: list.case sw if_True list.sel eq la) simp
  then show ?thesis by (simp only: bu join_split_str)
qed

lemma prefix_fence_short:
  assumes "prefix fence (q @ fence @ r)" and "length q < 3"
  shows "q = [] \<or> q = [BQ] \<or> q = [BQ, BQ]"
proof -
  from assms(2) consider "q = []" | a where "q = [a]" | a b where "q = [a, b]"
    by (cases q; cases "tl q"; cases "tl (tl q)") auto
  then show ?thesis
    using assms(1) by cases (auto simp: fence_def)
qed

lemma length_fence [simp]: "length fence = 3"
  by (simp add: fence_def)

lemma fenced_block_find:
  fixes r :: string
  assumes pre: "\<not> sublist fence pre"
  defines "c \<equiv> pre @ fence @ r"
  shows "\<exists>i. find_opt c fence = Some i \<and> i \<le> length pre
            \<and> (drop i pre = [] \<or> drop i pre = [BQ] \<or> drop i pre = [BQ, BQ])"
proof -
  have at: "prefix fence (drop (length pre) c)" by (simp add: c_def)
  have "sublist fence c"
    unfolding c_def sublist_def by blast
  then have "find_opt c fence \<noteq> None" by (simp add: find_opt_None)
  then obtain i where i: "find_opt c fence = Some i" by blast
  from find_opt_Some [OF i] have p: "prefix fence (drop i c)"
    and least: "\<forall>j<i. \<not> prefix fence (drop j c)" by auto
  have le: "i \<le> length pre"
  proof (rule ccontr)
    assume "\<not> i \<le> length pre"
    then have "length pre < i" by simp
    with least at show False by blast
  qed
  let ?q = "drop i pre"
  from le have d: "drop i c = ?q @ fence @ r" by (simp add: c_def)
  have short: "length ?q < 3"
  proof (rule ccontr)
    assume "\<not> length ?q < 3"
    then have "length fence \<le> length ?q" by simp
    moreover from p d have "prefix fence (?q @ fence @ r)" by simp
    ultimately have "prefix fence ?q"
      by (rule_tac prefix_length_prefix [where xs = "?q @ fence @ r"]) simp_all
    with le have "sublist fence pre"
      unfolding sublist_iff_drop by blast
    with pre show False ..
  qed
  from p d have "prefix fence (?q @ fence @ r)" by simp
  from prefix_fence_short [OF this short] i le show ?thesis by blast
qed

lemma fenced_block_rfind:
  fixes m :: string
  assumes post: "\<not> sublist fence ([BQ, BQ] @ post)"
  defines "c \<equiv> m @ fence @ post"
  shows "rfind_opt c fence = Some (length m)"
proof -
  have at: "prefix fence (drop (length m) c)" by (simp add: c_def)
  have len: "length m \<le> length c" by (simp add: c_def)
  have "sublist fence c"
    unfolding c_def sublist_def by blast
  then have "rfind_opt c fence \<noteq> None" by (simp add: rfind_opt_None)
  then obtain e where e: "rfind_opt c fence = Some e" by blast
  from rfind_opt_Some [OF e] have p: "prefix fence (drop e c)" and ele: "e \<le> length c"
    and last: "\<forall>j. e < j \<and> j \<le> length c \<longrightarrow> \<not> prefix fence (drop j c)" by auto
  have ge: "length m \<le> e"
  proof (rule ccontr)
    assume "\<not> length m \<le> e"
    then have "e < length m" by simp
    with last at len show False by blast
  qed
  have "\<not> length m < e"
  proof
    assume lt: "length m < e"
    define k where "k = e - Suc (length m)"
    from lt have k: "e = length m + Suc k" by (simp add: k_def)
    have "drop e c = drop (Suc k) (fence @ post)" by (simp add: c_def k)
    also have "\<dots> = drop k ([BQ, BQ] @ post)" by (simp add: fence_def)
    finally have "prefix fence (drop k ([BQ, BQ] @ post))" using p by simp
    moreover from ele k have "k \<le> length ([BQ, BQ] @ post)" by (simp add: c_def)
    ultimately have "sublist fence ([BQ, BQ] @ post)"
      unfolding sublist_iff_drop by blast
    with post show False ..
  qed
  with ge e show ?thesis by simp
qed

lemma slice_nat:
  assumes "a \<le> length s" and "b \<le> length s"
  shows "slice s (int a) (int b) = take (b - a) (drop a s)"
  using assms by (simp add: slice_def slice_bound_def)

lemma extract_block:
  assumes pre: "\<not> sublist fence pre"
    and post: "\<not> sublist fence ([BQ, BQ] @ post)"
  shows "extract_loop (Content (pre @ fence @ ''python'' @ [NL] @ X @ [NL] @ fence @ post) # rest) = Inr X"
proof -
  define r where "r = ''python'' @ [NL] @ X @ [NL] @ fence @ post"
  define m where "m = pre @ fence @ ''python'' @ [NL] @ X @ [NL]"
  define b where "b = fence @ ''python'' @ [NL] @ X @ [NL] @ fence"
  define c where "c = pre @ fence @ r"
  have c2: "c = m @ fence @ post" by (simp add: c_def m_def r_def)
  have c3: "c = pre @ b @ post" by (simp add: c_def b_def r_def)
  have lb: "length m + 3 = length pre + length b" by (simp add: m_def b_def)
  obtain i where
    i: "find_opt c fence = Some i" and le: "i \<le> length pre"
    and q: "drop i pre = [] \<or> drop i pre = [BQ] \<or> drop i pre = [BQ, BQ]"
    using fenced_block_find [OF pre, of r] unfolding c_def by (elim exE conjE)
  have e: "rfind_opt c fence = Some (length m)"
    using fenced_block_rfind [OF post, of m] by (simp only: c2)
  have cont: "contains_str fence c" by (simp add: contains_str_def i)
  have st: "find_str c fence = int i" by (simp add: find_str_def i)
  have en: "rfind_str c fence = int (length m)" by (simp add: rfind_str_def e)
  have lt: "i < length m" using le by (simp add: m_def)
  have ne: "int i \<noteq> int (length m)" using lt by simp
  have en3: "int (length m) + 3 = int (length m + 3)" by simp
  have sl: "slice c (int i) (int (length m + 3)) = drop i pre @ b"
  proof -
    have "slice c (int i) (int (length m + 3)) = take (length m + 3 - i) (drop i c)"
      using le by (intro slice_nat) (simp_all add: c2 m_def)
    also have "drop i c = (drop i pre @ b) @ post"
      using le by (simp add: c3)
    also have "take (length m + 3 - i) \<dots> = drop i pre @ b"
      using le by (simp add: lb)
    finally show ?thesis .
  qed
  have "extract_loop (Content c # rest) = strip_fence (slice c (int i) (int (length m) + 3))"
    using cont ne by (simp only: extract_loop.simps st en Let_def if_True if_False) simp
  also have "\<dots> = strip_fence (slice c (int i) (int (length m + 3)))"
    by (simp only: en3)
  also have "\<dots> = Inr X"
    unfolding sl b_def by (rule strip_fence_block [OF q])
  finally show ?thesis by (simp only: c_def r_def)
qed

lemma code_task_returns_extraction:
  assumes "ask api self (code_prompt language task) 5 w = (Inr state, w1)"
    and "extract_code_from_state state = Inr code"
    and "falsy filename"
  shows "code_task api self task language filename w = (Inr code, w1)"
  using assms by (simp add: code_task_def)

lemma extract_loop_few_fences:
  assumes "\<forall>e \<in> set es. few_fences e"
  shows "extract_loop es = Inr []"
  using extract_loop_skip [OF assms, of "[]"] by simp

lemma few_fences_examples:
  "few_fences NoContent" "few_fences (Content ''Done.'')" "few_fences (Content (''see '' @ fence))"
  by (simp_all add: occurrences_def fence_def BQ_def)

text \<open>
  Claim C1. Let one event of the history have the textual content
  \<open>pre ```python\nX\n``` post\<close>, where the delimiter occurs neither in \<open>pre\<close> nor
  after the closing fence (so the closing fence is not followed by a further backquote),
  and let no later event hold a fenced block (each has no content, or fewer than two
  occurrences of the delimiter). Then the extraction returns exactly \<open>X\<close>: no fence
  line, no added or lost newline. The earlier events and \<open>X\<close> itself are arbitrary.
  And when no event of the history holds a fenced block, the extraction returns the
  empty string.
\<close>

theorem code_task_extraction:
  "(\<not> sublist fence pre \<and> \<not> sublist fence ([BQ, BQ] @ post) \<and> (\<forall>e \<in> set later. few_fences e) \<longrightarrow>
      extract_code_from_state
        (State (earlier @ [Content (pre @ fence @ ''python'' @ [NL] @ X @ [NL] @ fence @ post)] @ later))
        = Inr X)
   \<and> ((\<forall>e \<in> set hist. few_fences e) \<longrightarrow> extract_code_from_state (State hist) = Inr [])"
proof (intro conjI impI)
  assume a: "\<not> sublist fence pre \<and> \<not> sublist fence ([BQ, BQ] @ post) \<and> (\<forall>e \<in> set later. few_fences e)"
  let ?ev = "Content (pre @ fence @ ''python'' @ [NL] @ X @ [NL] @ fence @ post)"
  from a have l: "\<forall>e \<in> set (rev later). few_fences e" by simp
  have "extract_code_from_state (State (earlier @ [?ev] @ later))
          = extract_loop (rev later @ ?ev # rev earlier)"
    by (simp add: extract_code_from_state_def)
  also have "\<dots> = extract_loop (?ev # rev earlier)"
    using l by (rule extract_loop_skip)
  also have "\<dots> = Inr X"
    using a by (intro extract_block) simp_all
  finally show "extract_code_from_state (State (earlier @ [?ev] @ later)) = Inr X" .
next
  assume "\<forall>e \<in> set hist. few_fences e"
  then have "\<forall>e \<in> set (rev hist). few_fences e" by simp
  then show "extract_code_from_state (State hist) = Inr []"
    unfolding extract_code_from_state_def State.sel by (rule extract_loop_few_fences)
qed

theorem code_task_extraction_witness:
  "\<not> sublist fence ''Here: '' \<and> \<not> sublist fence ([BQ, BQ] @ '' ok'') \<and>
   few_fences (Content (''see '' @ fence)) \<and> few_fences NoContent \<and>
   extract_code_from_state
     (State ([Content ''Done.''] @
             [Content (''Here: '' @ fence @ ''python'' @ [NL] @ ''x = 1'' @ [NL] @ fence @ '' ok'')] @
             [Content (''see '' @ fence), NoContent])) = Inr ''x = 1'' \<and>
   few_fences (Content ''Done.'') \<and>
   extract_code_from_state (State [NoContent, Content ''Done.'']) = Inr []"
proof -
  have a: "\<not> sublist fence ''Here: ''"
    by (simp add: sublist_Cons_right fence_def BQ_def)
  have b: "\<not> sublist fence ([BQ, BQ] @ '' ok'')"
    by (simp add: sublist_Cons_right fence_def BQ_def)
  have c: "\<forall>e \<in> set [Content (''see '' @ fence), NoContent]. few_fences e"
    using few_fences_examples by simp
  have d: "\<forall>e \<in> set [NoContent, Content ''Done.'']. few_fences e"
    using few_fences_examples by simp
  from code_task_extraction [of "''Here: ''" "'' ok''" "[Content (''see '' @ fence), NoContent]"
      "[Content ''Done.'']" "''x = 1''" "[NoContent, Content ''Done.'']"] a b c d
    few_fences_examples
  show ?thesis by blast
qed

text \<open>
  Claim C10. An event whose content holds the delimiter at exactly one position (the
  first and the last occurrence coincide) is skipped: the loop goes on with the events
  before it, and the extraction from a history ending with such an event is the
  extraction from the history without it. When no event of the history holds the
  delimiter at two distinct positions, the result is the empty string.
\<close>

theorem single_fence_event_skipped:
  "(length (occurrences fence c) = 1 \<longrightarrow>
      contains_str fence c \<and> find_str c fence = rfind_str c fence \<and>
      extract_loop (Content c # rest) = extract_loop rest \<and>
      extract_code_from_state (State (hist @ [Content c])) = extract_code_from_state (State hist))
   \<and> ((\<forall>e \<in> set hist. few_fences e) \<longrightarrow> extract_code_from_state (State hist) = Inr [])"
proof (intro conjI impI)
  assume one: "length (occurrences fence c) = 1"
  then obtain i where "occurrences fence c = [i]"
    by (cases "occurrences fence c") auto
  then have "i \<in> set (occurrences fence c)" by simp
  then have "i \<le> length c \<and> prefix fence (drop i c)" by (simp add: mem_occurrences)
  then have "sublist fence c" unfolding sublist_iff_drop by blast
  then show cont: "contains_str fence c" by (simp add: contains_str_iff)
  from one have "length (occurrences fence c) \<le> 1" by simp
  then show eq: "find_str c fence = rfind_str c fence" by (rule few_occurrences_find_eq_rfind)
  from eq show skip: "extract_loop (Content c # rest) = extract_loop rest" for rest
    by simp
  show "extract_code_from_state (State (hist @ [Content c])) = extract_code_from_state (State hist)"
    by (simp add: extract_code_from_state_def eq)
next
  assume "\<forall>e \<in> set hist. few_fences e"
  then have "\<forall>e \<in> set (rev hist). few_fences e" by simp
  then show "extract_code_from_state (State hist) = Inr []"
    unfolding extract_code_from_state_def State.sel by (rule extract_loop_few_fences)
qed

theorem single_fence_event_skipped_witness:
  "length (occurrences fence (''see '' @ fence)) = 1 \<and>
   extract_code_from_state (State ([Content ''Done.''] @ [Content (''see '' @ fence)]))
     = extract_code_from_state (State [Content ''Done.'']) \<and>
   few_fences (Content ''Done.'') \<and>
   extract_code_from_state (State [Content ''Done.'']) = Inr []"
proof -
  have a: "length (occurrences fence (''see '' @ fence)) = 1"
    by (simp add: occurrences_def fence_def BQ_def)
  have b: "\<forall>e \<in> set [Content ''Done.'']. few_fences e"
    using few_fences_examples by simp
  from single_fence_event_skipped [of "''see '' @ fence" _ "[Content ''Done.'']"] a b
    few_fences_examples
  show ?thesis by blast
qed

section \<open>Properties of the client facade\<close>

subsection \<open>Log lines\<close>

lemma client_log_raises:
  "log_raises api self m \<Longrightarrow> client_log api self m w = (Inl MarkupError, w)"
  by (simp add: client_log_def rich_print_def log_raises_def)

lemma client_log_prints:
  "\<not> log_raises api self m \<Longrightarrow>
     client_log api self m w = (Inr (), if verbose self then w\<lparr>console := console w @ [m]\<rparr> else w)"
  by (simp add: client_log_def rich_print_def log_raises_def)




lemma sim_prints:
  "\<not> sim_rejects (markup_part s) \<Longrightarrow>
     client_log sim fresh_client (Rich s) w = (Inr (), w\<lparr>console := console w @ [Rich s]\<rparr>)"
  "\<not> sim_rejects (markup_part s) \<Longrightarrow>
     client_log sim started_client (Rich s) w = (Inr (), w\<lparr>console := console w @ [Rich s]\<rparr>)"
  by (simp_all add: client_log_def rich_print_def rich_raises_def sim_def fresh_client_def
      started_client_def)

subsection \<open>The life cycle of the runtime handle\<close>

lemma init_runtime_None:
  assumes "init api available env p d v w = (Inr self, w')"
  shows "runtime self = None"
  using assms
  by (auto simp: init_def Let_def split: if_splits prod.splits sum.splits)

lemma sync_init_runtime_None:
  assumes "sync_init api available env p d v w = (Inr self, w')"
  shows "runtime (sync_client self) = None"
  using assms
  by (auto simp: sync_init_def split: prod.splits sum.splits dest: init_runtime_None)

lemma start_sets_runtime:
  assumes "start api self w = (Inr u, self', w')"
  shows "runtime self' \<noteq> None"
  using assms
  by (auto simp: start_def Let_def split: prod.splits sum.splits)

lemma init_sim_fresh_client:
  "fst (init sim True [] ''deepseek_local'' (Some ''/ws'') True empty_world) = Inr fresh_client"
proof -
  have g: "get_llm_config [] (Some ''deepseek_local'') =
             Inr [(''model'', ''ollama/deepseek-coder-v2:16b''), (''api_key'', ''ollama''),
                  (''base_url'', ''http://localhost:11434'')]"
    by (simp add: get_llm_config_def keys_LLM_CONFIG) (simp add: LLM_CONFIG_def)
  have l1: "\<not> rich_raises sim_rejects (Rich (CHECK_MARK @ '' OpenHands client initialized with '' @ ''deepseek_local''))"
    by (simp add: rich_raises_def markup_part_def CHECK_MARK_def sim_rejects_def)
  have l2: "\<not> rich_raises sim_rejects (Rich (FOLDER @ '' Workspace: '' @ ''/ws''))"
    by (simp add: rich_raises_def markup_part_def FOLDER_def sim_rejects_def)
  have r: "rich_rejects sim = sim_rejects" "path_resolve sim = sim_path_resolve" "mkdir sim = sim_mkdir"
    by (simp_all add: sim_def)
  show ?thesis
    unfolding init_def g r
    using l1 l2
    by (simp add: sim_path_resolve_def sim_mkdir_def call_ext_def Let_def getitem_def
        client_log_def rich_print_def r fresh_client_def sim_config_def empty_world_def)
qed

lemma start_sim_started_client:
  "fst (start sim fresh_client empty_world) = Inr () \<and>
   fst (snd (start sim fresh_client empty_world)) = started_client"
proof -
  have l1: "\<not> rich_raises sim_rejects (Rich (ROCKET @ '' Starting OpenHands runtime...''))"
    by (simp add: rich_raises_def markup_part_def ROCKET_def sim_rejects_def)
  have l2: "\<not> rich_raises sim_rejects (Rich (CHECK_MARK @ '' Runtime started''))"
    by (simp add: rich_raises_def markup_part_def CHECK_MARK_def sim_rejects_def)
  have r: "rich_rejects sim = sim_rejects" "create_runtime sim = sim_create_runtime"
    by (simp_all add: sim_def)
  have v: "verbose fresh_client" by (simp add: fresh_client_def)
  show ?thesis
    using l1 l2 v
    by (simp add: start_def client_log_def rich_print_def r sim_create_runtime_def call_ext_def
        Let_def started_client_def)
qed

lemma runtime_started_client: "runtime started_client = Some ()"
  by (simp add: started_client_def)

text \<open>
  Claim C5. The runtime handle of a client is \<open>None\<close> from \<open>__init__\<close> until
  \<open>start\<close> assigns it, and no other method assigns an attribute of the client. On
  such a client \<open>stop\<close> returns without raising and leaves the world as it was: no
  call to the runtime's close (no call at all), nothing on the console. The client
  itself is not assigned to by \<open>stop\<close>, which is why the model returns no new client.
\<close>

theorem stop_never_started:
  assumes "runtime self = None"
  shows "stop api self w = (Inr (), w)"
  using assms by (simp add: stop_def)

theorem stop_never_started_witness:
  "runtime fresh_client = None \<and> stop sim fresh_client empty_world = (Inr (), empty_world)"
proof -
  have h: "runtime fresh_client = None" by (simp add: fresh_client_def)
  from stop_never_started [OF h] h show ?thesis by blast
qed

subsection \<open>Commands before the start\<close>

lemma run_command_not_started:
  assumes "runtime self = None"
  shows "run_command api self command w =
           (if log_raises api self (Rich (LAPTOP @ '' Running: '' @ command))
            then (Inl MarkupError, w)
            else (Inl (none_has_no ''run_action''),
                  if verbose self
                  then w\<lparr>console := console w @ [Rich (LAPTOP @ '' Running: '' @ command)]\<rparr>
                  else w))"
  using assms
  by (simp add: run_command_def client_log_raises client_log_prints)

lemma not_log_raises_ls:
  "\<not> log_raises sim fresh_client (Rich (LAPTOP @ '' Running: '' @ ''ls -la''))"
  by (simp add: log_raises_def rich_raises_def markup_part_def LAPTOP_def sim_def sim_rejects_def)

lemma log_raises_echo:
  "log_raises sim fresh_client (Rich (LAPTOP @ '' Running: '' @ ''echo [/x]''))"
  by (simp add: log_raises_def rich_raises_def markup_part_def LAPTOP_def sim_def sim_rejects_def
      fresh_client_def)

text \<open>
  Claim C6. On a synchronous wrapper whose client was never started, \<open>run_command\<close>
  always raises and never returns a string, in particular not the empty one, and it
  reaches no collaborator. The error is the AttributeError of the missing handle
  (\<open>None\<close> has no \<open>run_action\<close>), unless the "Running:" log line before it has
  already raised MarkupError, which it does on a verbose client for a command whose text
  the console refuses.
\<close>

theorem sync_run_command_before_start:
  assumes "runtime (sync_client self) = None"
  shows "(\<exists>e. fst (sync_run_command api self command w) = Inl e)
       \<and> (\<forall>out. fst (sync_run_command api self command w) \<noteq> Inr out)
       \<and> fst (sync_run_command api self command w) =
           Inl (if log_raises api (sync_client self) (Rich (LAPTOP @ '' Running: '' @ command))
                then MarkupError else none_has_no ''run_action'')
       \<and> calls (snd (sync_run_command api self command w)) = calls w
       \<and> ext (snd (sync_run_command api self command w)) = ext w"
  using assms
  by (simp add: sync_run_command_def run_command_not_started)

theorem sync_run_command_before_start_witness:
  "runtime (sync_client (OpenHandsSync fresh_client)) = None \<and>
   fst (sync_run_command sim (OpenHandsSync fresh_client) ''ls -la'' empty_world)
     = Inl (none_has_no ''run_action'') \<and>
   fst (sync_run_command sim (OpenHandsSync fresh_client) ''ls -la'' empty_world) \<noteq> Inr [] \<and>
   fst (sync_run_command sim (OpenHandsSync fresh_client) ''echo [/x]'' empty_world)
     = Inl MarkupError"
proof -
  have h: "runtime (sync_client (OpenHandsSync fresh_client)) = None"
    by (simp add: fresh_client_def)
  have a: "\<not> log_raises sim (sync_client (OpenHandsSync fresh_client))
               (Rich (LAPTOP @ '' Running: '' @ ''ls -la''))"
    using not_log_raises_ls by simp
  have b: "log_raises sim (sync_client (OpenHandsSync fresh_client))
               (Rich (LAPTOP @ '' Running: '' @ ''echo [/x]''))"
    using log_raises_echo by simp
  from sync_run_command_before_start [OF h, of sim "''ls -la''" empty_world]
    sync_run_command_before_start [OF h, of sim "''echo [/x]''" empty_world] h a b
  show ?thesis by (simp only: if_True if_False simp_thms sum.distinct)
qed

subsection \<open>Browsing\<close>

text \<open>
  The browse action reaches the runtime only when the "Browsing:" log line before it has
  not raised.
\<close>

lemma browse_url_log_raises:
  assumes "log_raises api self (Rich (GLOBE @ '' Browsing: '' @ url))"
  shows "browse_url api self url w = (Inl MarkupError, w)"
  using assms by (simp add: browse_url_def client_log_raises)

lemma browse_url_markup_example:
  "browse_url sim started_client ''http://a.b/[/x]'' empty_world = (Inl MarkupError, empty_world)"
proof -
  have "log_raises sim started_client (Rich (GLOBE @ '' Browsing: '' @ ''http://a.b/[/x]''))"
    by (simp add: log_raises_def rich_raises_def markup_part_def GLOBE_def sim_def sim_rejects_def
        started_client_def fresh_client_def)
  then show ?thesis by (rule browse_url_log_raises)
qed

text \<open>
  Claim C7. On a started client, let the browse action reach the runtime (the log line
  before it has returned) and let the runtime answer it with the observation \<open>obs\<close>.
  If \<open>obs\<close> is not of the browser-output variant, \<open>browse_url\<close> returns the
  dictionary with the single key content, bound to \<open>str(obs)\<close>; if it is, the
  dictionary has exactly the keys url, content and screenshot, bound to the fields of
  \<open>obs\<close>.
\<close>

theorem browse_url_result:
  assumes "runtime self = Some h"
    and "client_log api self (Rich (GLOBE @ '' Browsing: '' @ url)) w = (Inr (), w1)"
    and "run_action api h (BrowseURLAction url) (ext w1) = (Inr obs, x)"
  shows "(\<not> is_browser_output obs \<longrightarrow>
            fst (browse_url api self url w) = Inr [(''content'', obs_str api obs)])
       \<and> (\<forall>u c s. obs = BrowserOutputObservation u c s \<longrightarrow>
            fst (browse_url api self url w) = Inr [(''url'', u), (''content'', c), (''screenshot'', s)])"
  using assms
  by (cases obs) (simp_all add: browse_url_def Let_def call_ext_def)

theorem browse_url_result_witness:
  "runtime started_client = Some () \<and>
   client_log sim started_client (Rich (GLOBE @ '' Browsing: '' @ [])) empty_world
     = (Inr (), empty_world\<lparr>console := console empty_world @ [Rich (GLOBE @ '' Browsing: '' @ [])]\<rparr>) \<and>
   run_action sim () (BrowseURLAction [])
      (ext (empty_world\<lparr>console := console empty_world @ [Rich (GLOBE @ '' Browsing: '' @ [])]\<rparr>))
     = (Inr (OtherObservation ''no URL given''), []) \<and>
   \<not> is_browser_output (OtherObservation ''no URL given'') \<and>
   fst (browse_url sim started_client [] empty_world)
     = Inr [(''content'', obs_str sim (OtherObservation ''no URL given''))] \<and>
   client_log sim started_client (Rich (GLOBE @ '' Browsing: '' @ ''http://a.b'')) empty_world
     = (Inr (), empty_world\<lparr>console := console empty_world @ [Rich (GLOBE @ '' Browsing: '' @ ''http://a.b'')]\<rparr>) \<and>
   run_action sim () (BrowseURLAction ''http://a.b'')
      (ext (empty_world\<lparr>console := console empty_world @ [Rich (GLOBE @ '' Browsing: '' @ ''http://a.b'')]\<rparr>))
     = (Inr (BrowserOutputObservation ''http://a.b'' ''<html></html>'' []), []) \<and>
   fst (browse_url sim started_client ''http://a.b'' empty_world)
     = Inr [(''url'', ''http://a.b''), (''content'', ''<html></html>''), (''screenshot'', [])]"
proof -
  let ?w1 = "empty_world\<lparr>console := console empty_world @ [Rich (GLOBE @ '' Browsing: '' @ [])]\<rparr>"
  let ?w2 = "empty_world\<lparr>console := console empty_world @ [Rich (GLOBE @ '' Browsing: '' @ ''http://a.b'')]\<rparr>"
  have l1: "client_log sim started_client (Rich (GLOBE @ '' Browsing: '' @ [])) empty_world = (Inr (), ?w1)"
    by (rule sim_prints) (simp add: markup_part_def GLOBE_def sim_rejects_def)
  have l2: "client_log sim started_client (Rich (GLOBE @ '' Browsing: '' @ ''http://a.b'')) empty_world
              = (Inr (), ?w2)"
    by (rule sim_prints) (simp add: markup_part_def GLOBE_def sim_rejects_def)
  have a: "run_action sim () (BrowseURLAction []) (ext ?w1)
             = (Inr (OtherObservation ''no URL given''), [])"
    by (simp add: sim_def sim_run_action_def empty_world_def)
  have b: "run_action sim () (BrowseURLAction ''http://a.b'') (ext ?w2)
             = (Inr (BrowserOutputObservation ''http://a.b'' ''<html></html>'' []), [])"
    by (simp add: sim_def sim_run_action_def empty_world_def)
  have c: "\<not> is_browser_output (OtherObservation ''no URL given'')" by simp
  from browse_url_result [OF runtime_started_client l1 a]
    browse_url_result [OF runtime_started_client l2 b] runtime_started_client l1 l2 a b c
  show ?thesis by blast
qed

subsection \<open>Writing and reading a file\<close>






section \<open>Properties of the command-line tool\<close>

text \<open>
  When opening the file raises FileNotFoundError, each of \<open>review_file\<close>,
  \<open>explain_file\<close> and \<open>fix_file\<close> enters its handler without calling the inference
  server. If the console prints the "File not found" line, the operation returns the
  empty string; if the console refuses the line, the MarkupError raised inside the
  handler propagates to the caller.
\<close>

lemma console_print_cases:
  "console_print api m w =
     (if rich_raises (cli_rich_rejects api) m then (Inl MarkupError, w)
      else (Inr (), w\<lparr>console := console w @ [m]\<rparr>))"
  by (simp add: console_print_def rich_print_def)

lemma file_not_found_returns_empty:
  assumes "open_read api filepath (ext w) = (Inl FileNotFoundError, x)"
    and "\<not> rich_raises (cli_rich_rejects api) (Rich (''[red]File not found: '' @ filepath @ ''[/red]''))"
  shows "review_file api filepath model w =
           (Inr [], w\<lparr>calls := calls w @ [OpenRead filepath], ext := x,
                      console := console w @ [Rich (''[red]File not found: '' @ filepath @ ''[/red]'')]\<rparr>)
       \<and> explain_file api filepath model w =
           (Inr [], w\<lparr>calls := calls w @ [OpenRead filepath], ext := x,
                      console := console w @ [Rich (''[red]File not found: '' @ filepath @ ''[/red]'')]\<rparr>)
       \<and> fix_file api filepath error model w =
           (Inr [], w\<lparr>calls := calls w @ [OpenRead filepath], ext := x,
                      console := console w @ [Rich (''[red]File not found: '' @ filepath @ ''[/red]'')]\<rparr>)"
  using assms
  by (simp add: review_file_def explain_file_def fix_file_def call_ext_def console_print_cases)

lemma file_not_found_print_raises:
  assumes "open_read api filepath (ext w) = (Inl FileNotFoundError, x)"
    and "rich_raises (cli_rich_rejects api) (Rich (''[red]File not found: '' @ filepath @ ''[/red]''))"
  shows "fst (review_file api filepath model w) = Inl MarkupError
       \<and> fst (explain_file api filepath model w) = Inl MarkupError
       \<and> fst (fix_file api filepath error model w) = Inl MarkupError"
  using assms
  by (simp add: review_file_def explain_file_def fix_file_def call_ext_def console_print_cases)

lemma sim_accepts_missing_py:
  "\<not> rich_raises (cli_rich_rejects sim_cli) (Rich (''[red]File not found: '' @ ''missing.py'' @ ''[/red]''))"
  by (simp add: rich_raises_def markup_part_def sim_cli_def sim_rejects_def tag_start_def)

lemma file_not_found_example:
  "fst (review_file sim_cli ''missing.py'' DEFAULT_MODEL empty_world) = Inr [] \<and>
   fst (explain_file sim_cli ''missing.py'' DEFAULT_MODEL empty_world) = Inr [] \<and>
   fst (fix_file sim_cli ''missing.py'' None DEFAULT_MODEL empty_world) = Inr []"
proof -
  have h: "open_read sim_cli ''missing.py'' (ext empty_world) = (Inl FileNotFoundError, [])"
    by (simp add: sim_cli_def sim_open_read_def empty_world_def)
  from file_not_found_returns_empty [OF h sim_accepts_missing_py, of DEFAULT_MODEL None]
  show ?thesis by simp
qed

text \<open>
  Claim C8 says that for every path that does not exist the three operations return the
  empty string instead of propagating an exception. The handler puts the path into
  console markup as it is, so this fails for a path that holds a closing tag: for the
  missing file \<open>x[/b].py\<close> the line is \<open>[red]File not found: x[/b].py[/red]\<close>, the
  console raises MarkupError at \<open>[/b]\<close>, and each operation raises instead of
  returning.
\<close>

theorem file_not_found_markup_path_raises:
  "open_read sim_cli ''x[/b].py'' (ext empty_world) = (Inl FileNotFoundError, []) \<and>
   fst (review_file sim_cli ''x[/b].py'' DEFAULT_MODEL empty_world) = Inl MarkupError \<and>
   fst (explain_file sim_cli ''x[/b].py'' DEFAULT_MODEL empty_world) = Inl MarkupError \<and>
   fst (fix_file sim_cli ''x[/b].py'' None DEFAULT_MODEL empty_world) = Inl MarkupError"
proof -
  have h: "open_read sim_cli ''x[/b].py'' (ext empty_world) = (Inl FileNotFoundError, [])"
    by (simp add: sim_cli_def sim_open_read_def empty_world_def)
  have r: "rich_raises (cli_rich_rejects sim_cli) (Rich (''[red]File not found: '' @ ''x[/b].py'' @ ''[/red]''))"
    by (simp add: rich_raises_def markup_part_def sim_cli_def sim_rejects_def tag_start_def)
  from file_not_found_print_raises [OF h r, of DEFAULT_MODEL None] h
  show ?thesis by blast
qed

end
